theory Spec2Isabelle
  imports Main "HOL-Library.Char_ord" "HOL-Library.List_Lexorder"
begin

section \<open>The presence registry: a JavaScript \<open>Map\<close> from email to socket id\<close>

text \<open>
  All three server files keep one global \<^verbatim>\<open>const connectedUsers = new Map()\<close>
  (email \<rightarrow> socket.id). A JavaScript \<open>Map\<close> iterates in insertion order, and the
  disconnect handler depends on that order, so the map is an association list in insertion
  order. Every reachable map has pairwise distinct keys (\<open>distinct (map fst m)\<close>).
\<close>

type_synonym email = string
type_synonym socket_id = string
type_synonym registry = "(email \<times> socket_id) list"

text \<open>\<^verbatim>\<open>Map.prototype.get\<close>: the value stored under the key, \<open>None\<close> for \<^verbatim>\<open>undefined\<close>.\<close>

fun Map_get :: "'k \<Rightarrow> ('k \<times> 'v) list \<Rightarrow> 'v option" where
  "Map_get k [] = None"
| "Map_get k ((k', v) # m) = (if k' = k then Some v else Map_get k m)"

text \<open>
  \<^verbatim>\<open>Map.prototype.set\<close>: an existing key keeps its position and gets the new value;
  a new key is appended.
\<close>

fun Map_set :: "'k \<Rightarrow> 'v \<Rightarrow> ('k \<times> 'v) list \<Rightarrow> ('k \<times> 'v) list" where
  "Map_set k v [] = [(k, v)]"
| "Map_set k v ((k', v') # m) = (if k' = k then (k, v) # m else (k', v') # Map_set k v m)"

text \<open>\<^verbatim>\<open>Map.prototype.delete\<close>: the entry of the key is removed, the others keep their order.\<close>

fun Map_delete :: "'k \<Rightarrow> ('k \<times> 'v) list \<Rightarrow> ('k \<times> 'v) list" where
  "Map_delete k [] = []"
| "Map_delete k ((k', v) # m) = (if k' = k then m else (k', v) # Map_delete k m)"

text \<open>
  The \<^verbatim>\<open>registerUser\<close> handler of the socket with id \<open>sid\<close>:
  \<^verbatim>\<open>connectedUsers.set(email, socket.id)\<close>.
\<close>

definition registerUser :: "socket_id \<Rightarrow> email \<Rightarrow> registry \<Rightarrow> registry" where
  "registerUser sid email connectedUsers = Map_set email sid connectedUsers"

text \<open>
  The \<^verbatim>\<open>disconnect\<close> handler of \<^verbatim>\<open>server.js\<close> (and of \<^verbatim>\<open>part_001\<close>):
  \<^verbatim>\<open>
  for (const [email, id] of connectedUsers.entries()) {
    if (id === socket.id) { connectedUsers.delete(email); break; }
  }
  \<close>
  The first argument of the loop is the part of the entries still to visit, the last one
  the map being mutated.
\<close>

fun disconnect_loop :: "socket_id \<Rightarrow> registry \<Rightarrow> registry \<Rightarrow> registry" where
  "disconnect_loop sid [] connectedUsers = connectedUsers"
| "disconnect_loop sid ((email, id') # entries) connectedUsers =
     (if id' = sid then Map_delete email connectedUsers
      else disconnect_loop sid entries connectedUsers)"

definition disconnect :: "socket_id \<Rightarrow> registry \<Rightarrow> registry" where
  "disconnect sid connectedUsers = disconnect_loop sid connectedUsers connectedUsers"

text \<open>
  The \<^verbatim>\<open>disconnect\<close> handler of \<^verbatim>\<open>part_000\<close> has the same loop without the
  \<^verbatim>\<open>break\<close>: after a deletion the iteration goes on with the entries that follow
  (deleting the entry just visited does not disturb a JavaScript \<open>Map\<close> iterator).
\<close>

fun disconnect_loop_part_000 :: "socket_id \<Rightarrow> registry \<Rightarrow> registry \<Rightarrow> registry" where
  "disconnect_loop_part_000 sid [] connectedUsers = connectedUsers"
| "disconnect_loop_part_000 sid ((email, id') # entries) connectedUsers =
     (if id' = sid then disconnect_loop_part_000 sid entries (Map_delete email connectedUsers)
      else disconnect_loop_part_000 sid entries connectedUsers)"

definition disconnect_part_000 :: "socket_id \<Rightarrow> registry \<Rightarrow> registry" where
  "disconnect_part_000 sid connectedUsers =
     disconnect_loop_part_000 sid connectedUsers connectedUsers"

text \<open>
  The two socket events that change the registry. A registry is reachable when a run of
  them from the empty map (\<^verbatim>\<open>new Map()\<close>) produces it.
\<close>

datatype registry_event = Registers socket_id email | Disconnects socket_id

fun registry_step :: "registry \<Rightarrow> registry_event \<Rightarrow> registry" where
  "registry_step m (Registers sid email) = registerUser sid email m"
| "registry_step m (Disconnects sid) = disconnect sid m"

fun registry_step_part_000 :: "registry \<Rightarrow> registry_event \<Rightarrow> registry" where
  "registry_step_part_000 m (Registers sid email) = registerUser sid email m"
| "registry_step_part_000 m (Disconnects sid) = disconnect_part_000 sid m"

section \<open>Room identifiers\<close>

text \<open>
  Strings are lists of characters compared by character code, lexicographically, a proper
  prefix first: the order of JavaScript's default \<^verbatim>\<open>Array.prototype.sort\<close> on strings
  (it compares code units). \<^verbatim>\<open>Array.prototype.join\<close> puts the separator between
  neighbours.
\<close>

fun join :: "string \<Rightarrow> string list \<Rightarrow> string" where
  "join sep [] = []"
| "join sep [x] = x"
| "join sep (x # y # ys) = x @ sep @ join sep (y # ys)"

text \<open>\<^verbatim>\<open>function generateRoomId(user1, user2) { return [user1, user2].sort().join("_"); }\<close>\<close>

definition generateRoomId :: "string \<Rightarrow> string \<Rightarrow> string" where
  "generateRoomId user1 user2 = join ''_'' (sort [user1, user2])"

section \<open>The server state, the channel and the persistence service\<close>

text \<open>
  A chat message as \<^verbatim>\<open>sendMessage\<close> builds it:
  \<^verbatim>\<open>{ senderEmail, receiverEmail, text, roomId, timestamp }\<close>. The MongoDB driver's
  \<^verbatim>\<open>insertOne\<close> adds the generated \<^verbatim>\<open>_id\<close> to the object it is given, so the
  object emitted after the write carries it.
\<close>

record message =
  senderEmail :: email
  receiverEmail :: email
  text' :: string
  roomId :: string
  timestamp :: nat
  msg_id :: "string option"

text \<open>
  A job document is schema-free: a list of fields. A property access such as
  \<^verbatim>\<open>job.jobTitle\<close> is \<open>Map_get ''jobTitle'' job\<close>, \<open>None\<close> for \<^verbatim>\<open>undefined\<close>.
\<close>

type_synonym document = "(string \<times> string) list"

text \<open>
  What the server emits. \<open>All\<close> is \<^verbatim>\<open>io.emit(...)\<close>; \<open>Room x\<close> is
  \<^verbatim>\<open>io.to(x).emit(...)\<close>, where \<open>x\<close> is a socket id or \<^verbatim>\<open>undefined\<close>.
\<close>

datatype target = All | Room "socket_id option"

datatype payload =
    Message message
  | JobPosted "string option" "string option"
  | Application "string option" string
  | ApplicationTitle "string option" string

datatype emission = Emit target string payload

text \<open>
  Socket.IO's delivery: \<^verbatim>\<open>io.emit\<close> reaches every connected socket; every socket is
  alone in the room named by its own id, and a room that no socket is in (also
  \<^verbatim>\<open>undefined\<close>) reaches nobody.
\<close>

fun recipients :: "socket_id list \<Rightarrow> target \<Rightarrow> socket_id list" where
  "recipients conns All = conns"
| "recipients conns (Room None) = []"
| "recipients conns (Room (Some r)) = filter (\<lambda>c. c = r) conns"

text \<open>
  The outcome of an awaited call of the persistence service inside a \<^verbatim>\<open>try\<close> block:
  it throws (the driver rejects, \<^verbatim>\<open>new ObjectId(jobId)\<close> refuses the id, or the
  collection variable is still \<^verbatim>\<open>undefined\<close>), or it resolves to a value. The
  service is outside the repository, so its outcome is a parameter of each handler.
\<close>

datatype 'a outcome = Throws | Resolves 'a

text \<open>The HTTP response: status code (200 unless \<^verbatim>\<open>res.status\<close> is called) and JSON body.\<close>

datatype body =
    Success
  | SuccessInserted string
  | SuccessMessage string
  | Error string

datatype response = Response nat body

record server =
  connectedUsers :: registry
  sockets :: "socket_id list"
  messages :: "message list"
  jobs :: "(string \<times> document) list"
  emitted :: "emission list"

definition initial :: server where
  "initial = \<lparr>connectedUsers = [], sockets = [], messages = [], jobs = [], emitted = []\<rparr>"

text \<open>The one emit statement, \<^verbatim>\<open>io.emit(ev, p)\<close> or \<^verbatim>\<open>io.to(x).emit(ev, p)\<close>.\<close>

definition emit :: "target \<Rightarrow> string \<Rightarrow> payload \<Rightarrow> server \<Rightarrow> server" where
  "emit t ev p s = s\<lparr>emitted := emitted s @ [Emit t ev p]\<rparr>"

text \<open>The sockets that an emission reaches when the live connections are those of \<open>s\<close>.\<close>

definition delivered :: "server \<Rightarrow> emission \<Rightarrow> socket_id list" where
  "delivered s e = (case e of Emit t ev p \<Rightarrow> recipients (sockets s) t)"

text \<open>JavaScript's truthiness of a string: only the empty string is falsy.\<close>

definition truthy :: "string \<Rightarrow> bool" where
  "truthy x = (x \<noteq> [])"

section \<open>Socket handlers\<close>

text \<open>
  A connection is made: Socket.IO adds the socket; the handler only installs listeners.
\<close>

definition on_connection :: "socket_id \<Rightarrow> server \<Rightarrow> server" where
  "on_connection sid s = s\<lparr>sockets := sockets s @ [sid]\<rparr>"

definition on_registerUser :: "socket_id \<Rightarrow> email \<Rightarrow> server \<Rightarrow> server" where
  "on_registerUser sid email s = s\<lparr>connectedUsers := registerUser sid email (connectedUsers s)\<rparr>"

text \<open>The socket is gone (Socket.IO removes it) and the \<^verbatim>\<open>disconnect\<close> handler runs.\<close>

definition on_disconnect :: "socket_id \<Rightarrow> server \<Rightarrow> server" where
  "on_disconnect sid s =
     s\<lparr>sockets := removeAll sid (sockets s),
       connectedUsers := disconnect sid (connectedUsers s)\<rparr>"

text \<open>
  \<^verbatim>\<open>
  socket.on("sendMessage", async ({ senderEmail, receiverEmail, text }) => {
    const roomId = generateRoomId(senderEmail, receiverEmail);
    const timestamp = new Date();
    const message = { senderEmail, receiverEmail, text, roomId, timestamp };
    try {
      await messagesCollection.insertOne(message);
      const receiverSocketId = connectedUsers.get(receiverEmail);
      if (receiverSocketId) { io.to(receiverSocketId).emit("receiveMessage", message); }
    } catch (error) { console.error(...); }
  });
  \<close>
  Nothing before the \<^verbatim>\<open>await\<close> reads the server state, so \<open>s\<close> is the state at the
  moment the write completes. \<open>insertOne\<close> is the outcome of the write (the id given to
  the document), \<open>now\<close> the clock.
\<close>

definition sendMessage ::
  "string outcome \<Rightarrow> nat \<Rightarrow> email \<Rightarrow> email \<Rightarrow> string \<Rightarrow> server \<Rightarrow> server" where
  "sendMessage insertOne now sender receiver txt s =
     (let message = \<lparr>senderEmail = sender, receiverEmail = receiver, text' = txt,
                      roomId = generateRoomId sender receiver, timestamp = now,
                      msg_id = None\<rparr>
      in case insertOne of
           Throws \<Rightarrow> s
         | Resolves insertedId \<Rightarrow>
             (let stored = message\<lparr>msg_id := Some insertedId\<rparr>;
                  s1 = s\<lparr>messages := messages s @ [stored]\<rparr>
              in case Map_get receiver (connectedUsers s1) of
                   None \<Rightarrow> s1
                 | Some receiverSocketId \<Rightarrow>
                     if truthy receiverSocketId
                     then emit (Room (Some receiverSocketId)) ''receiveMessage'' (Message stored) s1
                     else s1))"

section \<open>HTTP handlers\<close>

text \<open>
  \<^verbatim>\<open>POST /api/jobs\<close> (\<^verbatim>\<open>part_000\<close> and \<^verbatim>\<open>part_001\<close>):
  \<^verbatim>\<open>
  try {
    const result = await jobsCollection.insertOne(job);
    io.emit("newJobPosted", { jobTitle: job.jobTitle, companyName: job.companyName });
    res.send({ success: true, insertedId: result.insertedId });
  } catch (error) { res.status(500).send({ error: "Failed to post job." }); }
  \<close>
\<close>

definition api_jobs :: "string outcome \<Rightarrow> document \<Rightarrow> server \<Rightarrow> response \<times> server" where
  "api_jobs insertOne job s =
     (case insertOne of
        Throws \<Rightarrow> (Response 500 (Error ''Failed to post job.''), s)
      | Resolves insertedId \<Rightarrow>
          (Response 200 (SuccessInserted insertedId),
           emit All ''newJobPosted''
             (JobPosted (Map_get ''jobTitle'' job) (Map_get ''companyName'' job))
             (s\<lparr>jobs := jobs s @ [(insertedId, job)]\<rparr>)))"

text \<open>
  \<^verbatim>\<open>POST /api/apply\<close> of \<^verbatim>\<open>part_001\<close>:
  \<^verbatim>\<open>
  try {
    const job = await jobsCollection.findOne({ _id: new ObjectId(jobId) });
    if (!job) { return res.status(404).send({ error: "Job not found" }); }
    const employerSocketId = connectedUsers.get(employerEmail);
    if (employerSocketId) {
      io.to(employerSocketId).emit("jobApplicationNotification",
        { jobTitle: job.jobTitle, applicantName });
    }
    res.send({ success: true, message: "Application notification sent" });
  } catch (error) { res.status(500).send({ error: "Failed to apply." }); }
  \<close>
  \<open>findOne\<close> is the outcome of the awaited lookup, the only place where the
  request's \<^verbatim>\<open>jobId\<close> is used: it throws, or resolves to \<^verbatim>\<open>null\<close>
  (\<open>None\<close>) or to the stored document.
\<close>

definition api_apply ::
  "document option outcome \<Rightarrow> string \<Rightarrow> email \<Rightarrow> server \<Rightarrow> response \<times> server" where
  "api_apply findOne applicantName employerEmail s =
     (case findOne of
        Throws \<Rightarrow> (Response 500 (Error ''Failed to apply.''), s)
      | Resolves None \<Rightarrow> (Response 404 (Error ''Job not found''), s)
      | Resolves (Some job) \<Rightarrow>
          (Response 200 (SuccessMessage ''Application notification sent''),
           case Map_get employerEmail (connectedUsers s) of
             None \<Rightarrow> s
           | Some employerSocketId \<Rightarrow>
               if truthy employerSocketId
               then emit (Room (Some employerSocketId)) ''jobApplicationNotification''
                      (Application (Map_get ''jobTitle'' job) applicantName) s
               else s))"

text \<open>
  \<^verbatim>\<open>POST /api/apply\<close> of \<^verbatim>\<open>part_000\<close>: the same lookup and 404, then the
  emit without a test,
  \<^verbatim>\<open>io.to(connectedUsers.get(employerEmail)).emit("jobApplicationNotification", {...})\<close>,
  so the room is \<^verbatim>\<open>undefined\<close> when the employer has no entry.
\<close>

definition api_apply_part_000 ::
  "document option outcome \<Rightarrow> string \<Rightarrow> email \<Rightarrow> server \<Rightarrow> response \<times> server" where
  "api_apply_part_000 findOne applicantName employerEmail s =
     (case findOne of
        Throws \<Rightarrow> (Response 500 (Error ''Failed to apply''), s)
      | Resolves None \<Rightarrow> (Response 404 (Error ''Job not found''), s)
      | Resolves (Some job) \<Rightarrow>
          (Response 200 (SuccessMessage ''Application notification sent''),
           emit (Room (Map_get employerEmail (connectedUsers s))) ''jobApplicationNotification''
             (Application (Map_get ''jobTitle'' job) applicantName) s))"

text \<open>
  \<^verbatim>\<open>POST /api/emit-apply\<close> of \<^verbatim>\<open>server.js\<close>:
  \<^verbatim>\<open>
  try {
    const job = await jobsCollection.findOne({ _id: new ObjectId(jobId) });
    const employerSocketId = connectedUsers.get(employer);
    if (employerSocketId) {
      io.to(employerSocketId).emit("jobApplicationNotification",
        { title: job.title, applicantName });
    }
    res.send({ success: true, message: "Application notification sent" });
  } catch (error) { res.status(500).send({ error: "Failed to apply." }); }
  \<close>
  There is no test of \<^verbatim>\<open>job\<close>: when it is \<^verbatim>\<open>null\<close>, evaluating
  \<^verbatim>\<open>job.title\<close> for the payload throws a TypeError before \<^verbatim>\<open>emit\<close> is called,
  and the \<^verbatim>\<open>catch\<close> answers 500; when the employer has no entry, \<^verbatim>\<open>job\<close> is
  never read.
\<close>

definition api_emit_apply ::
  "document option outcome \<Rightarrow> string \<Rightarrow> email \<Rightarrow> server \<Rightarrow> response \<times> server" where
  "api_emit_apply findOne applicantName employer s =
     (case findOne of
        Throws \<Rightarrow> (Response 500 (Error ''Failed to apply.''), s)
      | Resolves job \<Rightarrow>
          (case Map_get employer (connectedUsers s) of
             None \<Rightarrow> (Response 200 (SuccessMessage ''Application notification sent''), s)
           | Some employerSocketId \<Rightarrow>
               if truthy employerSocketId
               then (case job of
                       None \<Rightarrow> (Response 500 (Error ''Failed to apply.''), s)
                     | Some j \<Rightarrow>
                         (Response 200 (SuccessMessage ''Application notification sent''),
                          emit (Room (Some employerSocketId)) ''jobApplicationNotification''
                            (ApplicationTitle (Map_get ''title'' j) applicantName) s))
               else (Response 200 (SuccessMessage ''Application notification sent''), s)))"

section \<open>Facts about the registry operations\<close>

lemma Map_get_set: "Map_get k' (Map_set k v m) = (if k' = k then Some v else Map_get k' m)"
  by (induction m) auto

lemma Map_set_idem: "Map_set k v (Map_set k v m) = Map_set k v m"
  by (induction m) auto

lemma Map_get_None_iff: "Map_get k m = None \<longleftrightarrow> k \<notin> fst ` set m"
  by (induction m) (auto split: if_splits)

lemma Map_get_Some_mem: "Map_get k m = Some v \<Longrightarrow> (k, v) \<in> set m"
  by (induction m) (auto split: if_splits)

lemma mem_Map_get: "distinct (map fst m) \<Longrightarrow> (k, v) \<in> set m \<Longrightarrow> Map_get k m = Some v"
  by (induction m) (auto simp: rev_image_eqI)

lemma keys_Map_set:
  "map fst (Map_set k v m) = (if k \<in> fst ` set m then map fst m else map fst m @ [k])"
  by (induction m) (auto split: if_splits)

lemma distinct_Map_set: "distinct (map fst m) \<Longrightarrow> distinct (map fst (Map_set k v m))"
  by (simp add: keys_Map_set)

lemma keys_Map_delete: "map fst (Map_delete k m) = remove1 k (map fst m)"
  by (induction m) auto

lemma distinct_Map_delete: "distinct (map fst m) \<Longrightarrow> distinct (map fst (Map_delete k m))"
  by (simp add: keys_Map_delete)

lemma Map_get_delete:
  "distinct (map fst m) \<Longrightarrow> Map_get k' (Map_delete k m) = (if k' = k then None else Map_get k' m)"
proof (induction m)
  case Nil
  then show ?case by simp
next
  case (Cons e m)
  obtain a b where e: "e = (a, b)" by (cases e)
  from Cons.prems e have "Map_get a m = None" by (simp add: Map_get_None_iff)
  with Cons e show ?case by auto
qed

lemma Map_delete_remove1:
  "distinct (map fst m) \<Longrightarrow> (k, v) \<in> set m \<Longrightarrow> Map_delete k m = remove1 (k, v) m"
  by (induction m) (auto simp: rev_image_eqI split: if_splits)

lemma disconnect_loop_find:
  "disconnect_loop sid entries m =
     (case find (\<lambda>e. snd e = sid) entries of None \<Rightarrow> m | Some e \<Rightarrow> Map_delete (fst e) m)"
  by (induction entries) auto

lemma disconnect_loop_none:
  "sid \<notin> snd ` set entries \<Longrightarrow> disconnect_loop sid entries m = m"
  by (induction entries) auto

lemma disconnect_loop_part_000_none:
  "sid \<notin> snd ` set entries \<Longrightarrow> disconnect_loop_part_000 sid entries m = m"
  by (induction entries arbitrary: m) auto

lemma Map_delete_filter:
  "distinct (map fst m) \<Longrightarrow> Map_delete k m = filter (\<lambda>e. fst e \<noteq> k) m"
proof (induction m)
  case Nil
  then show ?case by simp
next
  case (Cons e m)
  then have "\<forall>x \<in> set m. fst x \<noteq> fst e" by (auto simp: image_iff)
  then have "filter (\<lambda>x. fst x \<noteq> fst e) m = m" by (simp add: filter_id_conv)
  with Cons show ?case by (cases e) auto
qed

lemma distinct_keys_filter: "distinct (map fst m) \<Longrightarrow> distinct (map fst (filter P m))"
  by (simp add: distinct_map_filter)

lemma disconnect_loop_part_000_keys:
  "distinct (map fst m) \<Longrightarrow>
   disconnect_loop_part_000 sid entries m =
     filter (\<lambda>e. fst e \<notin> fst ` {x \<in> set entries. snd x = sid}) m"
proof (induction entries arbitrary: m)
  case Nil
  then show ?case by simp
next
  case (Cons x xs)
  obtain a b where x: "x = (a, b)" by (cases x)
  show ?case
  proof (cases "b = sid")
    case True
    have "disconnect_loop_part_000 sid (x # xs) m =
            disconnect_loop_part_000 sid xs (Map_delete a m)"
      using x True by simp
    also have "\<dots> = filter (\<lambda>e. fst e \<notin> fst ` {x \<in> set xs. snd x = sid}) (Map_delete a m)"
      using Cons.prems by (intro Cons.IH) (rule distinct_Map_delete)
    also have "\<dots> = filter (\<lambda>e. fst e \<notin> fst ` {x \<in> set xs. snd x = sid})
                        (filter (\<lambda>e. fst e \<noteq> a) m)"
      using Cons.prems by (simp add: Map_delete_filter)
    also have "\<dots> = filter (\<lambda>e. fst e \<notin> fst ` {y \<in> set (x # xs). snd y = sid}) m"
    proof -
      have h: "\<And>e. (fst e \<noteq> a \<and> fst e \<notin> fst ` {x \<in> set xs. snd x = sid}) =
                  (fst e \<notin> fst ` {y \<in> set (x # xs). snd y = sid})"
        using x True by (auto simp: image_iff)
      show ?thesis by (simp only: filter_filter h)
    qed
    finally show ?thesis .
  next
    case False
    have "{y \<in> set (x # xs). snd y = sid} = {y \<in> set xs. snd y = sid}"
      using x False by auto
    then show ?thesis using Cons x False by simp
  qed
qed

lemma disconnect_part_000_filter:
  assumes "distinct (map fst m)"
  shows "disconnect_part_000 sid m = filter (\<lambda>e. snd e \<noteq> sid) m"
proof -
  have "\<And>e. e \<in> set m \<Longrightarrow>
          (fst e \<notin> fst ` {x \<in> set m. snd x = sid}) = (snd e \<noteq> sid)"
  proof -
    fix e assume e: "e \<in> set m"
    show "(fst e \<notin> fst ` {x \<in> set m. snd x = sid}) = (snd e \<noteq> sid)"
    proof
      assume "fst e \<notin> fst ` {x \<in> set m. snd x = sid}"
      with e show "snd e \<noteq> sid" by auto
    next
      assume ne: "snd e \<noteq> sid"
      show "fst e \<notin> fst ` {x \<in> set m. snd x = sid}"
      proof
        assume "fst e \<in> fst ` {x \<in> set m. snd x = sid}"
        then obtain x where x: "x \<in> set m" "snd x = sid" "fst x = fst e" by auto
        from assms e x(1) x(3) have "x = e"
          by (metis distinct_map inj_on_def)
        with x(2) ne show False by simp
      qed
    qed
  qed
  then show ?thesis
    using assms by (simp add: disconnect_part_000_def disconnect_loop_part_000_keys cong: filter_cong)
qed

lemma disconnect_first_owner:
  "disconnect sid m =
     (case find (\<lambda>e. snd e = sid) m of None \<Rightarrow> m | Some e \<Rightarrow> Map_delete (fst e) m)"
  by (simp add: disconnect_def disconnect_loop_find)

lemma distinct_keys_distinct: "distinct (map fst m) \<Longrightarrow> distinct m"
  by (simp add: distinct_map)

lemma registerUser_fold:
  "Map_get U (foldl (\<lambda>m (sid, email). registerUser sid email m) users ops) =
     (let rs = filter (\<lambda>(sid, email). email = U) ops
      in if rs = [] then Map_get U users else Some (fst (last rs)))"
proof (induction ops rule: rev_induct)
  case Nil
  then show ?case by simp
next
  case (snoc x xs)
  obtain sid email where x: "x = (sid, email)" by (cases x)
  show ?case using snoc x by (simp add: registerUser_def Map_get_set Let_def)
qed

lemma disconnect_stops_at_first_match:
  assumes "distinct (map fst (before @ (email, sid) # rest))" and "sid \<notin> snd ` set before"
  shows "disconnect sid (before @ (email, sid) # rest) = before @ rest"
proof -
  have f: "find (\<lambda>e. snd e = sid) (before @ (email, sid) # rest) = Some (email, sid)"
    using assms(2) by (induction before) auto
  have "(email, sid) \<in> set (before @ (email, sid) # rest)" by simp
  with assms(1) have "Map_delete email (before @ (email, sid) # rest) =
      remove1 (email, sid) (before @ (email, sid) # rest)"
    by (rule Map_delete_remove1)
  also have "\<dots> = before @ rest"
  proof -
    have "(email, sid) \<notin> set before" using assms(2) by (auto simp: image_iff)
    then show ?thesis by (simp add: remove1_append)
  qed
  finally show ?thesis using f by (simp add: disconnect_first_owner)
qed

lemma length_Map_delete:
  "length m \<le> Suc (length (Map_delete k m)) \<and> length (Map_delete k m) \<le> length m"
  by (induction m) auto

lemma disconnect_removes_at_most_one:
  "length users \<le> Suc (length (disconnect sid users)) \<and>
   length (disconnect sid users) \<le> length users \<and>
   (sid \<notin> snd ` set users \<longrightarrow> disconnect sid users = users)"
proof (cases "find (\<lambda>e. snd e = sid) users")
  case None
  then show ?thesis by (simp add: disconnect_first_owner)
next
  case (Some e)
  then have "sid \<in> snd ` set users" by (auto simp: find_Some_iff image_iff)
  then show ?thesis using Some by (simp add: disconnect_first_owner length_Map_delete)
qed

lemma distinct_disconnect: "distinct (map fst m) \<Longrightarrow> distinct (map fst (disconnect sid m))"
  by (simp add: disconnect_first_owner distinct_Map_delete split: option.splits)

lemma distinct_disconnect_part_000:
  "distinct (map fst m) \<Longrightarrow> distinct (map fst (disconnect_part_000 sid m))"
  by (simp add: disconnect_part_000_filter distinct_keys_filter)

lemma reachable_distinct_keys:
  "distinct (map fst m) \<Longrightarrow> distinct (map fst (foldl registry_step m evs))"
proof (induction evs arbitrary: m)
  case Nil
  then show ?case by simp
next
  case (Cons ev evs)
  then show ?case
    by (cases ev) (simp_all add: registerUser_def distinct_Map_set distinct_disconnect)
qed

lemma reachable_distinct_keys_part_000:
  "distinct (map fst m) \<Longrightarrow> distinct (map fst (foldl registry_step_part_000 m evs))"
proof (induction evs arbitrary: m)
  case Nil
  then show ?case by simp
next
  case (Cons ev evs)
  then show ?case
    by (cases ev) (simp_all add: registerUser_def distinct_Map_set distinct_disconnect_part_000)
qed

section \<open>Disconnecting an owner and disconnecting a superseded connection\<close>

text \<open>
  In every registry with distinct keys: when some user identity maps to the disconnecting
  connection, the handler of \<^verbatim>\<open>server.js\<close> and \<^verbatim>\<open>part_001\<close> removes exactly one
  entry, an entry of that connection, and every other user resolves as before; when no
  entry maps to the connection (it was superseded by a newer registration of the same
  user), both handlers leave the registry as it is; an entry of another connection, such
  as the newer entry of a re-registered user, is never touched by either handler. The
  handler of \<^verbatim>\<open>part_000\<close> removes exactly one entry only when the connection owns
  exactly one.
\<close>

lemma disconnect_owner_and_superseded:
  assumes "distinct (map fst users)"
  shows "((\<exists>email. Map_get email users = Some sid) \<longrightarrow>
            (\<exists>email. Map_get email users = Some sid \<and>
               disconnect sid users = remove1 (email, sid) users \<and>
               (\<forall>e. Map_get e (disconnect sid users) =
                      (if e = email then None else Map_get e users)))) \<and>
         ((\<forall>email. Map_get email users \<noteq> Some sid) \<longrightarrow>
            disconnect sid users = users \<and> disconnect_part_000 sid users = users) \<and>
         (\<forall>email newer. Map_get email users = Some newer \<and> newer \<noteq> sid \<longrightarrow>
            Map_get email (disconnect sid users) = Some newer \<and>
            Map_get email (disconnect_part_000 sid users) = Some newer) \<and>
         (\<forall>email. Map_get email users = Some sid \<and>
                  (\<forall>e. Map_get e users = Some sid \<longrightarrow> e = email) \<longrightarrow>
            disconnect_part_000 sid users = remove1 (email, sid) users)"
proof (intro conjI allI impI)
  assume "\<exists>email. Map_get email users = Some sid"
  then obtain u where u: "Map_get u users = Some sid" ..
  then have "(u, sid) \<in> set users" by (rule Map_get_Some_mem)
  then have "\<exists>e. e \<in> set users \<and> snd e = sid" by force
  then obtain e where e: "find (\<lambda>e. snd e = sid) users = Some e"
    by (cases "find (\<lambda>e. snd e = sid) users") (auto simp: find_None_iff)
  then have mem: "e \<in> set users" and snd: "snd e = sid"
    by (auto simp: find_Some_iff)
  then have mem': "(fst e, sid) \<in> set users" by (metis prod.collapse)
  have d: "disconnect sid users = Map_delete (fst e) users"
    using e by (simp add: disconnect_first_owner)
  show "\<exists>email. Map_get email users = Some sid \<and>
               disconnect sid users = remove1 (email, sid) users \<and>
               (\<forall>e. Map_get e (disconnect sid users) =
                      (if e = email then None else Map_get e users))"
  proof (intro exI [of _ "fst e"] conjI allI)
    show "Map_get (fst e) users = Some sid" using assms mem' by (rule mem_Map_get)
    show "disconnect sid users = remove1 (fst e, sid) users"
      using d assms mem' by (simp add: Map_delete_remove1)
    show "Map_get k (disconnect sid users) = (if k = fst e then None else Map_get k users)" for k
      using d assms by (simp add: Map_get_delete)
  qed
next
  assume none: "\<forall>email. Map_get email users \<noteq> Some sid"
  have "sid \<notin> snd ` set users"
  proof
    assume "sid \<in> snd ` set users"
    then obtain k where "(k, sid) \<in> set users" by auto
    with assms have "Map_get k users = Some sid" by (rule mem_Map_get)
    with none show False by simp
  qed
  then show "disconnect sid users = users" and "disconnect_part_000 sid users = users"
    by (simp_all add: disconnect_def disconnect_part_000_def disconnect_loop_none
          disconnect_loop_part_000_none)
next
  fix email newer
  assume a: "Map_get email users = Some newer \<and> newer \<noteq> sid"
  then have mem: "(email, newer) \<in> set users" by (simp add: Map_get_Some_mem)
  show "Map_get email (disconnect sid users) = Some newer"
  proof (cases "find (\<lambda>e. snd e = sid) users")
    case None
    then show ?thesis using a by (simp add: disconnect_first_owner)
  next
    case (Some e)
    then have "e \<in> set users" "snd e = sid" by (auto simp: find_Some_iff)
    then have "(fst e, sid) \<in> set users" by (metis prod.collapse)
    with assms have "Map_get (fst e) users = Some sid" by (rule mem_Map_get)
    with a have "fst e \<noteq> email" by auto
    then show ?thesis using Some a assms by (simp add: disconnect_first_owner Map_get_delete)
  qed
  have "(email, newer) \<in> set (filter (\<lambda>e. snd e \<noteq> sid) users)" using mem a by simp
  moreover have "distinct (map fst (filter (\<lambda>e. snd e \<noteq> sid) users))"
    using assms by (rule distinct_keys_filter)
  ultimately show "Map_get email (disconnect_part_000 sid users) = Some newer"
    using assms by (simp only: disconnect_part_000_filter mem_Map_get)
next
  fix email
  assume a: "Map_get email users = Some sid \<and> (\<forall>e. Map_get e users = Some sid \<longrightarrow> e = email)"
  have "\<And>x. x \<in> set users \<Longrightarrow> (snd x \<noteq> sid) = ((email, sid) \<noteq> x)"
  proof -
    fix x assume x: "x \<in> set users"
    then have "(fst x, snd x) \<in> set users" by simp
    with assms have "Map_get (fst x) users = Some (snd x)" by (rule mem_Map_get)
    with a show "(snd x \<noteq> sid) = ((email, sid) \<noteq> x)" by (metis option.inject prod.collapse fst_conv snd_conv)
  qed
  then have "filter (\<lambda>e. snd e \<noteq> sid) users = filter ((\<noteq>) (email, sid)) users"
    by (simp cong: filter_cong)
  also have "\<dots> = remove1 (email, sid) users"
    using assms by (simp add: distinct_keys_distinct distinct_remove1_removeAll removeAll_filter_not_eq)
  finally show "disconnect_part_000 sid users = remove1 (email, sid) users"
    using assms by (simp add: disconnect_part_000_filter)
qed

text \<open>
  Claim C1. The handler of \<^verbatim>\<open>part_000\<close> does not remove exactly one entry of a
  connection that owns two. Socket \<open>s1\<close> registers \<open>a@x\<close>, socket \<open>s2\<close> registers
  \<open>c@x\<close>, socket \<open>s1\<close> registers \<open>b@x\<close>; then \<open>s1\<close> disconnects. The loop
  without \<^verbatim>\<open>break\<close> removes both entries of \<open>s1\<close>; the loop of \<^verbatim>\<open>server.js\<close>
  removes the entry of \<open>a@x\<close> and no other.
\<close>

theorem disconnect_part_000_removes_both_owned_entries:
  "foldl registry_step_part_000 []
      [Registers ''s1'' ''a@x'', Registers ''s2'' ''c@x'', Registers ''s1'' ''b@x''] =
     [(''a@x'', ''s1''), (''c@x'', ''s2''), (''b@x'', ''s1'')] \<and>
   disconnect_part_000 ''s1'' [(''a@x'', ''s1''), (''c@x'', ''s2''), (''b@x'', ''s1'')] =
     [(''c@x'', ''s2'')] \<and>
   disconnect ''s1'' [(''a@x'', ''s1''), (''c@x'', ''s2''), (''b@x'', ''s1'')] =
     [(''c@x'', ''s2''), (''b@x'', ''s1'')]"
  by (simp add: registerUser_def disconnect_def disconnect_part_000_def)

section \<open>Registering\<close>

text \<open>
  Claim C2. After any sequence of \<^verbatim>\<open>registerUser\<close> events (each a pair of the socket
  and the email it sends) run from any registry, a user resolves to the socket of the last
  event of the sequence that names the user, and as before when none does. In particular
  a second registration of a user from another socket makes the user resolve to the
  second socket and not to the first, a registration changes no other user, registering
  the same pair twice gives the same registry as registering it once, and the handler has
  no failing branch: it always returns a registry, again with distinct keys.
\<close>

theorem resolve_returns_latest_registration:
  "Map_get U (foldl (\<lambda>m (sid, email). registerUser sid email m) users ops) =
     (let rs = filter (\<lambda>(sid, email). email = U) ops
      in if rs = [] then Map_get U users else Some (fst (last rs))) \<and>
   Map_get U (registerUser C2 U (registerUser C1 U users)) = Some C2 \<and>
   (C1 \<noteq> C2 \<longrightarrow> Map_get U (registerUser C2 U (registerUser C1 U users)) \<noteq> Some C1) \<and>
   (U' \<noteq> U \<longrightarrow> Map_get U' (registerUser C1 U users) = Map_get U' users) \<and>
   registerUser C1 U (registerUser C1 U users) = registerUser C1 U users \<and>
   (distinct (map fst users) \<longrightarrow> distinct (map fst (registerUser C1 U users)))"
  by (simp add: registerUser_fold)
     (simp add: registerUser_def Map_get_set Map_set_idem distinct_Map_set)

theorem resolve_returns_latest_registration_witness:
  "foldl (\<lambda>m (sid, email). registerUser sid email m) []
      [(''s1'', ''a@x''), (''s2'', ''b@x''), (''s3'', ''a@x'')] =
     [(''a@x'', ''s3''), (''b@x'', ''s2'')] \<and>
   Map_get ''a@x'' (foldl (\<lambda>m (sid, email). registerUser sid email m) []
      [(''s1'', ''a@x''), (''s2'', ''b@x''), (''s3'', ''a@x'')]) = Some ''s3'' \<and>
   ''s1'' \<noteq> ''s3'' \<and>
   Map_get ''a@x'' (registerUser ''s3'' ''a@x'' (registerUser ''s1'' ''a@x'' [])) \<noteq> Some ''s1'' \<and>
   ''b@x'' \<noteq> ''a@x'' \<and>
   Map_get ''b@x'' (registerUser ''s1'' ''a@x'' [(''b@x'', ''s2'')]) = Some ''s2'' \<and>
   distinct (map fst [(''b@x'', ''s2'')]) \<and>
   distinct (map fst (registerUser ''s1'' ''a@x'' [(''b@x'', ''s2'')]))"
  using resolve_returns_latest_registration
    [of "''a@x''" "[]" "[(''s1'', ''a@x''), (''s2'', ''b@x''), (''s3'', ''a@x'')]" "''s3''" "''s1''"]
    resolve_returns_latest_registration
    [of "''a@x''" "[(''b@x'', ''s2'')]" "[]" "''s3''" "''s1''" "''b@x''"]
  by (simp add: registerUser_def)

section \<open>Sending a message: the write comes first\<close>

text \<open>
  Claim C3. For every \<^verbatim>\<open>sendMessage\<close> event: when the write throws, the server
  state is unchanged, so nothing is emitted; when the write succeeds, the message with its
  room id and timestamp is stored, and then, if the receiver has no entry, nothing is
  emitted, and if the receiver resolves to a socket id (never empty, as Socket.IO assigns
  it), exactly one event \<open>receiveMessage\<close> is added, carrying the stored message, to
  the room of that socket: it reaches no other socket, and reaches that socket when it
  is connected.
\<close>

theorem sendMessage_persists_before_delivery:
  "sendMessage Throws now sender receiver txt s = s \<and>
   messages (sendMessage (Resolves insertedId) now sender receiver txt s) =
     messages s @ [\<lparr>senderEmail = sender, receiverEmail = receiver, text' = txt,
                    roomId = generateRoomId sender receiver, timestamp = now,
                    msg_id = Some insertedId\<rparr>] \<and>
   (Map_get receiver (connectedUsers s) = None \<longrightarrow>
      emitted (sendMessage (Resolves insertedId) now sender receiver txt s) = emitted s) \<and>
   (Map_get receiver (connectedUsers s) = Some receiverSocketId \<and> receiverSocketId \<noteq> [] \<longrightarrow>
      emitted (sendMessage (Resolves insertedId) now sender receiver txt s) =
        emitted s @ [Emit (Room (Some receiverSocketId)) ''receiveMessage''
          (Message \<lparr>senderEmail = sender, receiverEmail = receiver, text' = txt,
                     roomId = generateRoomId sender receiver, timestamp = now,
                     msg_id = Some insertedId\<rparr>)] \<and>
      set (recipients (sockets (sendMessage (Resolves insertedId) now sender receiver txt s))
             (Room (Some receiverSocketId))) \<subseteq> {receiverSocketId} \<and>
      (receiverSocketId \<in> set (sockets s) \<longrightarrow>
         receiverSocketId \<in> set (recipients
            (sockets (sendMessage (Resolves insertedId) now sender receiver txt s))
            (Room (Some receiverSocketId)))))"
  by (auto simp: sendMessage_def emit_def truthy_def Let_def split: option.splits)

theorem sendMessage_persists_before_delivery_witness:
  "Map_get ''b@x'' (connectedUsers (on_registerUser ''s1'' ''a@x'' (on_connection ''s1'' initial)))
     = None \<and>
   emitted (sendMessage (Resolves ''m1'') 7 ''a@x'' ''b@x'' ''hi''
     (on_registerUser ''s1'' ''a@x'' (on_connection ''s1'' initial))) = [] \<and>
   Map_get ''b@x'' (connectedUsers (on_registerUser ''s2'' ''b@x'' (on_connection ''s2''
     (on_registerUser ''s1'' ''a@x'' (on_connection ''s1'' initial))))) = Some ''s2'' \<and>
   ''s2'' \<noteq> [] \<and>
   ''s2'' \<in> set (sockets (on_registerUser ''s2'' ''b@x'' (on_connection ''s2''
     (on_registerUser ''s1'' ''a@x'' (on_connection ''s1'' initial))))) \<and>
   emitted (sendMessage (Resolves ''m1'') 7 ''a@x'' ''b@x'' ''hi''
     (on_registerUser ''s2'' ''b@x'' (on_connection ''s2''
       (on_registerUser ''s1'' ''a@x'' (on_connection ''s1'' initial))))) =
     [Emit (Room (Some ''s2'')) ''receiveMessage''
        (Message \<lparr>senderEmail = ''a@x'', receiverEmail = ''b@x'', text' = ''hi'',
                   roomId = ''a@x_b@x'', timestamp = 7, msg_id = Some ''m1''\<rparr>)] \<and>
   recipients (sockets (sendMessage (Resolves ''m1'') 7 ''a@x'' ''b@x'' ''hi''
     (on_registerUser ''s2'' ''b@x'' (on_connection ''s2''
       (on_registerUser ''s1'' ''a@x'' (on_connection ''s1'' initial))))))
     (Room (Some ''s2'')) = [''s2'']"
  using sendMessage_persists_before_delivery
      [of 7 "''a@x''" "''b@x''" "''hi''"
          "on_registerUser ''s1'' ''a@x'' (on_connection ''s1'' initial)" "''m1''" "''s2''"]
    sendMessage_persists_before_delivery
      [of 7 "''a@x''" "''b@x''" "''hi''"
          "on_registerUser ''s2'' ''b@x'' (on_connection ''s2''
             (on_registerUser ''s1'' ''a@x'' (on_connection ''s1'' initial)))" "''m1''" "''s2''"]
  by (simp add: sendMessage_def emit_def truthy_def Let_def on_registerUser_def
        on_connection_def initial_def registerUser_def generateRoomId_def)

section \<open>How many entries a disconnect removes\<close>

text \<open>
  Claim C4. The handler of \<^verbatim>\<open>server.js\<close> stops at the first entry that stores the
  socket id (\<open>disconnect_stops_at_first_match\<close>, \<open>disconnect_removes_at_most_one\<close>).
  The handler of \<^verbatim>\<open>part_000\<close> has no \<^verbatim>\<open>break\<close> and removes every entry
  that stores it (\<open>disconnect_part_000_filter\<close>): when one socket has registered
  \<open>a@x\<close> and then \<open>b@x\<close>, its disconnect empties the registry there, while
  \<^verbatim>\<open>server.js\<close> removes the entry of \<open>a@x\<close> only.
\<close>

theorem disconnect_part_000_two_entries:
  "registerUser ''s1'' ''b@x'' (registerUser ''s1'' ''a@x'' []) =
     [(''a@x'', ''s1''), (''b@x'', ''s1'')] \<and>
   disconnect_part_000 ''s1'' [(''a@x'', ''s1''), (''b@x'', ''s1'')] = [] \<and>
   disconnect ''s1'' [(''a@x'', ''s1''), (''b@x'', ''s1'')] = [(''b@x'', ''s1'')]"
  by (simp add: registerUser_def disconnect_def disconnect_part_000_def)

section \<open>Applying for a job that is not stored\<close>

text \<open>
  When the lookup resolves to \<^verbatim>\<open>null\<close>, \<^verbatim>\<open>/api/apply\<close> of
  \<^verbatim>\<open>part_000\<close> and of \<^verbatim>\<open>part_001\<close> answers 404 and leaves the state as it is.
  \<^verbatim>\<open>/api/emit-apply\<close> of \<^verbatim>\<open>server.js\<close> never answers 404: it answers 200 when
  the employer has no entry and 500 when the employer is registered.
\<close>

lemma api_apply_job_not_found:
  "api_apply (Resolves None) applicantName employerEmail s =
     (Response 404 (Error ''Job not found''), s) \<and>
   api_apply_part_000 (Resolves None) applicantName employerEmail s =
     (Response 404 (Error ''Job not found''), s)"
  by (simp add: api_apply_def api_apply_part_000_def)

lemma api_emit_apply_job_not_found:
  "fst (api_emit_apply (Resolves None) applicantName employer s) =
     (case Map_get employer (connectedUsers s) of
        None \<Rightarrow> Response 200 (SuccessMessage ''Application notification sent'')
      | Some employerSocketId \<Rightarrow>
          if employerSocketId = []
          then Response 200 (SuccessMessage ''Application notification sent'')
          else Response 500 (Error ''Failed to apply.'')) \<and>
   snd (api_emit_apply (Resolves None) applicantName employer s) = s"
  by (simp add: api_emit_apply_def truthy_def split: option.splits)

text \<open>
  Claim C5. A request to \<^verbatim>\<open>/api/emit-apply\<close> of \<^verbatim>\<open>server.js\<close> for a job that is
  not stored, from applicant \<open>Ann\<close> to employer \<open>e@x\<close>: with no socket registered the
  answer is 200 and success; with \<open>e@x\<close> registered on socket \<open>s1\<close> it is 500. The
  claim asks for 404 in both.
\<close>

theorem api_emit_apply_missing_job:
  "api_emit_apply (Resolves None) ''Ann'' ''e@x'' initial =
     (Response 200 (SuccessMessage ''Application notification sent''), initial) \<and>
   api_emit_apply (Resolves None) ''Ann'' ''e@x''
       (on_registerUser ''s1'' ''e@x'' (on_connection ''s1'' initial)) =
     (Response 500 (Error ''Failed to apply.''),
      on_registerUser ''s1'' ''e@x'' (on_connection ''s1'' initial))"
  by (simp add: api_emit_apply_def truthy_def initial_def on_registerUser_def
        on_connection_def registerUser_def)

section \<open>Posting a job\<close>

text \<open>
  Claim C6. For every \<^verbatim>\<open>POST /api/jobs\<close>: when the write throws, the answer is
  500 and the state is unchanged, so nothing is emitted; when it succeeds, the answer is
  200 with the inserted id and exactly one \<open>newJobPosted\<close> event with the job title
  and company name is emitted to all: it reaches every connected socket, also one that no
  registry entry stores, and the answer is the same when no socket is connected.
\<close>

theorem api_jobs_write_then_broadcast:
  "api_jobs Throws job s = (Response 500 (Error ''Failed to post job.''), s) \<and>
   fst (api_jobs (Resolves insertedId) job s) = Response 200 (SuccessInserted insertedId) \<and>
   emitted (snd (api_jobs (Resolves insertedId) job s)) =
     emitted s @ [Emit All ''newJobPosted''
                    (JobPosted (Map_get ''jobTitle'' job) (Map_get ''companyName'' job))] \<and>
   jobs (snd (api_jobs (Resolves insertedId) job s)) = jobs s @ [(insertedId, job)] \<and>
   connectedUsers (snd (api_jobs (Resolves insertedId) job s)) = connectedUsers s \<and>
   sockets (snd (api_jobs (Resolves insertedId) job s)) = sockets s \<and>
   delivered (snd (api_jobs (Resolves insertedId) job s))
     (Emit All ''newJobPosted''
        (JobPosted (Map_get ''jobTitle'' job) (Map_get ''companyName'' job))) = sockets s \<and>
   (\<forall>c \<in> set (sockets s). c \<notin> snd ` set (connectedUsers s) \<longrightarrow>
      c \<in> set (delivered (snd (api_jobs (Resolves insertedId) job s))
        (Emit All ''newJobPosted''
           (JobPosted (Map_get ''jobTitle'' job) (Map_get ''companyName'' job))))) \<and>
   (sockets s = [] \<longrightarrow>
      fst (api_jobs (Resolves insertedId) job s) = Response 200 (SuccessInserted insertedId))"
  by (simp add: api_jobs_def emit_def delivered_def)

theorem api_jobs_write_then_broadcast_witness:
  "''s2'' \<in> set (sockets (on_connection ''s2''
      (on_registerUser ''s1'' ''a@x'' (on_connection ''s1'' initial)))) \<and>
   ''s2'' \<notin> snd ` set (connectedUsers (on_connection ''s2''
      (on_registerUser ''s1'' ''a@x'' (on_connection ''s1'' initial)))) \<and>
   delivered (snd (api_jobs (Resolves ''j1'')
        [(''jobTitle'', ''Backend Engineer''), (''companyName'', ''Hive'')]
        (on_connection ''s2'' (on_registerUser ''s1'' ''a@x'' (on_connection ''s1'' initial)))))
     (Emit All ''newJobPosted'' (JobPosted (Some ''Backend Engineer'') (Some ''Hive'')))
     = [''s1'', ''s2''] \<and>
   sockets initial = [] \<and>
   api_jobs (Resolves ''j1'') [(''jobTitle'', ''Backend Engineer''), (''companyName'', ''Hive'')]
     initial =
     (Response 200 (SuccessInserted ''j1''),
      initial\<lparr>jobs := [(''j1'', [(''jobTitle'', ''Backend Engineer''), (''companyName'', ''Hive'')])],
              emitted := [Emit All ''newJobPosted''
                            (JobPosted (Some ''Backend Engineer'') (Some ''Hive''))]\<rparr>)"
  using api_jobs_write_then_broadcast
      [of "[(''jobTitle'', ''Backend Engineer''), (''companyName'', ''Hive'')]"
          "on_connection ''s2'' (on_registerUser ''s1'' ''a@x'' (on_connection ''s1'' initial))"
          "''j1''"]
    api_jobs_write_then_broadcast
      [of "[(''jobTitle'', ''Backend Engineer''), (''companyName'', ''Hive'')]" initial "''j1''"]
  by (simp add: api_jobs_def emit_def delivered_def on_registerUser_def
        on_connection_def initial_def registerUser_def)

section \<open>Applying while the employer is offline\<close>




section \<open>Room identifiers are symmetric\<close>

text \<open>
  Claim C8. For all identities \<open>A\<close> and \<open>B\<close> (so also for \<open>A \<noteq> B\<close>) the room
  identifier of \<open>A\<close> and \<open>B\<close> equals that of \<open>B\<close> and \<open>A\<close>, and it is the
  lexicographically smaller identity, the separator \<open>_\<close>, and the larger identity.
\<close>

theorem generateRoomId_symmetric:
  "generateRoomId A B = generateRoomId B A \<and>
   generateRoomId A B = (if A \<le> B then A @ ''_'' @ B else B @ ''_'' @ A)"
  by (auto simp: generateRoomId_def)

theorem generateRoomId_symmetric_witness:
  "''a@x'' \<noteq> ''b@x'' \<and> generateRoomId ''a@x'' ''b@x'' = ''a@x_b@x'' \<and>
   generateRoomId ''b@x'' ''a@x'' = ''a@x_b@x''"
  using generateRoomId_symmetric [of "''a@x''" "''b@x''"]
    generateRoomId_symmetric [of "''b@x''" "''a@x''"]
  by simp

section \<open>Several users on one connection\<close>

text \<open>
  Claim C9. In \<^verbatim>\<open>server.js\<close> one socket may register two different emails; both
  entries then store its id, so the registry does not keep at most one user per
  connection. When that socket disconnects it is no longer among the live connections,
  only the first of its entries is removed, and some user still resolves to the dead
  socket.
\<close>

theorem stale_entry_after_disconnect:
  assumes "distinct (map fst (connectedUsers s))" and "u1 \<noteq> u2"
  shows "Map_get u1 (connectedUsers (on_registerUser c u2 (on_registerUser c u1 s))) = Some c \<and>
         Map_get u2 (connectedUsers (on_registerUser c u2 (on_registerUser c u1 s))) = Some c \<and>
         c \<notin> set (sockets (on_disconnect c (on_registerUser c u2 (on_registerUser c u1 s)))) \<and>
         (\<exists>u. Map_get u (connectedUsers
                 (on_disconnect c (on_registerUser c u2 (on_registerUser c u1 s)))) = Some c)"
proof -
  let ?r = "Map_set u2 c (Map_set u1 c (connectedUsers s))"
  have d: "distinct (map fst ?r)" using assms(1) by (intro distinct_Map_set)
  have g1: "Map_get u1 ?r = Some c" and g2: "Map_get u2 ?r = Some c"
    using assms(2) by (simp_all add: Map_get_set)
  then have "(u1, c) \<in> set ?r" by (intro Map_get_Some_mem)
  then obtain e where e: "find (\<lambda>e. snd e = c) ?r = Some e"
    by (cases "find (\<lambda>e. snd e = c) ?r") (force simp: find_None_iff)+
  have get: "Map_get k (disconnect c ?r) = (if k = fst e then None else Map_get k ?r)" for k
    using e d by (simp add: disconnect_first_owner Map_get_delete)
  have "\<exists>u. Map_get u (disconnect c ?r) = Some c"
  proof (cases "fst e = u1")
    case True
    with assms(2) g2 get [of u2] show ?thesis by auto
  next
    case False
    with g1 get [of u1] show ?thesis by auto
  qed
  with g1 g2 show ?thesis
    by (simp add: on_registerUser_def on_disconnect_def registerUser_def)
qed

theorem stale_entry_after_disconnect_witness:
  "distinct (map fst (connectedUsers (on_connection ''s1'' initial))) \<and> ''a@x'' \<noteq> ''b@x'' \<and>
   sockets (on_connection ''s1'' initial) = [''s1''] \<and>
   connectedUsers (on_registerUser ''s1'' ''b@x''
      (on_registerUser ''s1'' ''a@x'' (on_connection ''s1'' initial))) =
     [(''a@x'', ''s1''), (''b@x'', ''s1'')] \<and>
   sockets (on_disconnect ''s1'' (on_registerUser ''s1'' ''b@x''
      (on_registerUser ''s1'' ''a@x'' (on_connection ''s1'' initial)))) = [] \<and>
   connectedUsers (on_disconnect ''s1'' (on_registerUser ''s1'' ''b@x''
      (on_registerUser ''s1'' ''a@x'' (on_connection ''s1'' initial)))) = [(''b@x'', ''s1'')]"
  using stale_entry_after_disconnect [of "on_connection ''s1'' initial" "''a@x''" "''b@x''" "''s1''"]
  by (simp add: on_connection_def initial_def on_registerUser_def on_disconnect_def
        registerUser_def disconnect_def)

section \<open>Room identifiers are not injective\<close>

text \<open>
  Claim C10. Two different unordered pairs of identities that contain the separator can
  have the same room identifier: \<open>a\<close> with \<open>b_c\<close>, and \<open>a_b\<close> with \<open>c\<close>, both
  give \<open>a_b_c\<close>.
\<close>

theorem generateRoomId_not_injective:
  "generateRoomId ''a'' ''b_c'' = ''a_b_c'' \<and> generateRoomId ''a_b'' ''c'' = ''a_b_c'' \<and>
   {''a'', ''b_c''} \<noteq> {''a_b'', ''c''}"
  by (simp add: generateRoomId_def doubleton_eq_iff)

end
